theory Spec2Isabelle
  imports Complex_Main "HOL-Library.Multiset"
begin

section \<open>JavaScript values of the dashboard\<close>

text \<open>
  The dashboard \<^verbatim>\<open>src/CoffeeDashboard.jsx\<close> reads spreadsheet rows (objects from column
  name to cell), normalizes them into transaction records and aggregates them. A cell
  is a string, a number or a boolean; \<^verbatim>\<open>null\<close> and \<^verbatim>\<open>undefined\<close> stand for cells that
  are empty or absent.

  Numbers. A JavaScript number is \<open>NaN\<close>, one of the two infinities, or a finite value.
  Finite values are modelled as rationals with exact arithmetic: the rounding and the
  overflow of IEEE doubles are not modelled, and \<open>-0\<close> is identified with \<open>0\<close> (the program
  cannot tell them apart). Concrete inputs in this theory use values that doubles hold
  exactly. Strings are lists of 8-bit characters; white space is the ASCII white space.
\<close>

datatype jsnum = NaN | PInf | NInf | Fin rat

datatype jsval = JUndefined | JNull | JBool bool | JNum jsnum | JStr string

datatype error = TypeError



text \<open>\<^verbatim>\<open>a + b\<close> on numbers.\<close>

fun js_add :: "jsnum \<Rightarrow> jsnum \<Rightarrow> jsnum" where
  "js_add NaN b = NaN"
| "js_add PInf NaN = NaN"
| "js_add PInf NInf = NaN"
| "js_add PInf PInf = PInf"
| "js_add PInf (Fin y) = PInf"
| "js_add NInf NaN = NaN"
| "js_add NInf PInf = NaN"
| "js_add NInf NInf = NInf"
| "js_add NInf (Fin y) = NInf"
| "js_add (Fin x) NaN = NaN"
| "js_add (Fin x) PInf = PInf"
| "js_add (Fin x) NInf = NInf"
| "js_add (Fin x) (Fin y) = Fin (x + y)"

text \<open>\<^verbatim>\<open>-a\<close> and \<^verbatim>\<open>a - b\<close> on numbers.\<close>

fun js_neg :: "jsnum \<Rightarrow> jsnum" where
  "js_neg NaN = NaN"
| "js_neg PInf = NInf"
| "js_neg NInf = PInf"
| "js_neg (Fin x) = Fin (- x)"

definition js_sub :: "jsnum \<Rightarrow> jsnum \<Rightarrow> jsnum" where
  "js_sub a b = js_add a (js_neg b)"

text \<open>\<^verbatim>\<open>a <= b\<close> and \<^verbatim>\<open>a < b\<close> on numbers: every comparison with \<open>NaN\<close> is false.\<close>

fun js_le :: "jsnum \<Rightarrow> jsnum \<Rightarrow> bool" where
  "js_le NaN b = False"
| "js_le a NaN = False"
| "js_le NInf b = True"
| "js_le a PInf = True"
| "js_le PInf b = False"
| "js_le a NInf = False"
| "js_le (Fin x) (Fin y) = (x \<le> y)"

fun js_lt :: "jsnum \<Rightarrow> jsnum \<Rightarrow> bool" where
  "js_lt NaN b = False"
| "js_lt a NaN = False"
| "js_lt PInf b = False"
| "js_lt a NInf = False"
| "js_lt NInf b = True"
| "js_lt a PInf = True"
| "js_lt (Fin x) (Fin y) = (x < y)"

text \<open>\<^verbatim>\<open>a / n\<close> where \<open>n\<close> is the size of a \<^verbatim>\<open>Set\<close>, a non-negative integer.\<close>

fun js_div_nat :: "jsnum \<Rightarrow> nat \<Rightarrow> jsnum" where
  "js_div_nat NaN n = NaN"
| "js_div_nat PInf n = PInf"
| "js_div_nat NInf n = NInf"
| "js_div_nat (Fin x) n =
     (if n = 0 then (if x = 0 then NaN else if 0 < x then PInf else NInf)
      else Fin (x / of_nat n))"

text \<open>Truthiness (\<^verbatim>\<open>ToBoolean\<close>), \<^verbatim>\<open>a || b\<close> on values and on numbers.\<close>

fun truthy :: "jsval \<Rightarrow> bool" where
  "truthy JUndefined = False"
| "truthy JNull = False"
| "truthy (JBool b) = b"
| "truthy (JNum n) = (n \<noteq> NaN \<and> n \<noteq> Fin 0)"
| "truthy (JStr s) = (s \<noteq> [])"

definition js_or :: "jsval \<Rightarrow> jsval \<Rightarrow> jsval" where
  "js_or a b = (if truthy a then a else b)"

definition num_or :: "jsnum \<Rightarrow> jsnum \<Rightarrow> jsnum" where
  "num_or a b = (if truthy (JNum a) then a else b)"

text \<open>\<^verbatim>\<open>a === b\<close>: same type and same value, and \<open>NaN\<close> differs from itself.\<close>

definition strict_eq :: "jsval \<Rightarrow> jsval \<Rightarrow> bool" where
  "strict_eq a b = (a = b \<and> a \<noteq> JNum NaN)"

section \<open>Reading numbers from strings\<close>

definition is_ws :: "char \<Rightarrow> bool" where
  "is_ws c = (c = CHR 0x09 \<or> c = CHR 0x0A \<or> c = CHR 0x0B \<or> c = CHR 0x0C \<or> c = CHR 0x0D
     \<or> c = CHR 0x20)"

definition digit_table :: "(char \<times> nat) list" where
  "digit_table =
     [(CHR ''0'', 0), (CHR ''1'', 1), (CHR ''2'', 2), (CHR ''3'', 3), (CHR ''4'', 4),
      (CHR ''5'', 5), (CHR ''6'', 6), (CHR ''7'', 7), (CHR ''8'', 8), (CHR ''9'', 9),
      (CHR ''a'', 10), (CHR ''b'', 11), (CHR ''c'', 12), (CHR ''d'', 13), (CHR ''e'', 14),
      (CHR ''f'', 15), (CHR ''A'', 10), (CHR ''B'', 11), (CHR ''C'', 12), (CHR ''D'', 13),
      (CHR ''E'', 14), (CHR ''F'', 15)]"

definition digit_of :: "char \<Rightarrow> nat option" where
  "digit_of c = map_of digit_table c"

text \<open>A digit of the given radix.\<close>

definition is_digit :: "nat \<Rightarrow> char \<Rightarrow> bool" where
  "is_digit radix c = (case digit_of c of None \<Rightarrow> False | Some d \<Rightarrow> d < radix)"

definition digits_val :: "nat \<Rightarrow> string \<Rightarrow> nat" where
  "digits_val radix ds = foldl (\<lambda>a c. radix * a + (case digit_of c of None \<Rightarrow> 0 | Some d \<Rightarrow> d)) 0 ds"

text \<open>
  The optional \<^verbatim>\<open>ExponentPart\<close> of a decimal literal: \<open>e\<close> or \<open>E\<close>, an optional sign and
  at least one digit. \<open>None\<close> when the text does not start with one.
\<close>

definition exponent_part :: "string \<Rightarrow> (int \<times> string) option" where
  "exponent_part s =
     (case s of
        [] \<Rightarrow> None
      | c # r \<Rightarrow>
          if c = CHR ''e'' \<or> c = CHR ''E'' then
            (let sg = (case r of [] \<Rightarrow> 1 | x # _ \<Rightarrow> if x = CHR ''-'' then - 1 else (1::int));
                 r' = (case r of [] \<Rightarrow> [] | x # t \<Rightarrow>
                         if x = CHR ''-'' \<or> x = CHR ''+'' then t else r);
                 ds = takeWhile (is_digit 10) r'
             in if ds = [] then None
                else Some (sg * int (digits_val 10 ds), dropWhile (is_digit 10) r'))
          else None)"

definition scale10 :: "rat \<Rightarrow> int \<Rightarrow> rat" where
  "scale10 m e = (if 0 \<le> e then m * 10 ^ nat e else m / 10 ^ nat (- e))"

text \<open>
  The longest prefix that is a \<^verbatim>\<open>StrUnsignedDecimalLiteral\<close> (\<^verbatim>\<open>Infinity\<close>, digits with
  an optional fraction and exponent, or a fraction starting with the dot), with its
  value and the rest of the text.
\<close>

definition unsigned_decimal :: "string \<Rightarrow> (jsnum \<times> string) option" where
  "unsigned_decimal s =
     (if take 8 s = ''Infinity'' then Some (PInf, drop 8 s)
      else
        let ip = takeWhile (is_digit 10) s;
            r1 = dropWhile (is_digit 10) s;
            dot = (case r1 of [] \<Rightarrow> False | c # _ \<Rightarrow> c = CHR ''.'');
            fp = (if dot then takeWhile (is_digit 10) (tl r1) else []);
            r2 = (if dot then dropWhile (is_digit 10) (tl r1) else r1)
        in if ip = [] \<and> fp = [] then None
           else
             let m = of_nat (digits_val 10 ip) + of_nat (digits_val 10 fp) / 10 ^ length fp
             in (case exponent_part r2 of
                   None \<Rightarrow> Some (Fin m, r2)
                 | Some (e, r3) \<Rightarrow> Some (Fin (scale10 m e), r3)))"

text \<open>The longest prefix that is a \<^verbatim>\<open>StrDecimalLiteral\<close>: an optional sign first.\<close>

definition str_decimal :: "string \<Rightarrow> (jsnum \<times> string) option" where
  "str_decimal s =
     (case s of
        [] \<Rightarrow> None
      | c # r \<Rightarrow>
          if c = CHR ''+'' then unsigned_decimal r
          else if c = CHR ''-'' then map_option (\<lambda>(v, t). (js_neg v, t)) (unsigned_decimal r)
          else unsigned_decimal s)"

text \<open>\<^verbatim>\<open>parseFloat(s)\<close>: skip leading white space, read the longest decimal prefix.\<close>

definition parseFloat :: "string \<Rightarrow> jsnum" where
  "parseFloat s =
     (case str_decimal (dropWhile is_ws s) of None \<Rightarrow> NaN | Some (v, _) \<Rightarrow> v)"

text \<open>
  \<^verbatim>\<open>0x\<close>, \<^verbatim>\<open>0o\<close> and \<^verbatim>\<open>0b\<close> literals (\<^verbatim>\<open>NonDecimalIntegerLiteral\<close>), which
  \<^verbatim>\<open>Number\<close> reads and \<^verbatim>\<open>parseFloat\<close> does not.
\<close>

definition non_decimal :: "string \<Rightarrow> jsnum option" where
  "non_decimal s =
     (case s of
        c # x # ds \<Rightarrow>
          if c = CHR ''0'' then
            (let radix = (if x = CHR ''x'' \<or> x = CHR ''X'' then 16
                          else if x = CHR ''o'' \<or> x = CHR ''O'' then 8
                          else if x = CHR ''b'' \<or> x = CHR ''B'' then 2 else (0::nat))
             in if radix = 0 then None
                else if ds \<noteq> [] \<and> list_all (is_digit radix) ds
                then Some (Fin (of_nat (digits_val radix ds)))
                else Some NaN)
          else None
      | _ \<Rightarrow> None)"

definition trim :: "string \<Rightarrow> string" where
  "trim s = rev (dropWhile is_ws (rev (dropWhile is_ws s)))"

text \<open>
  \<^verbatim>\<open>Number(s)\<close> on a string (\<^verbatim>\<open>StringToNumber\<close>): the trimmed text is empty (0) or is as
  a whole a numeric literal; anything else is \<open>NaN\<close>.
\<close>

definition StringToNumber :: "string \<Rightarrow> jsnum" where
  "StringToNumber s =
     (let t = trim s
      in if t = [] then Fin 0
         else (case non_decimal t of
                 Some v \<Rightarrow> v
               | None \<Rightarrow>
                   (case str_decimal t of
                      None \<Rightarrow> NaN
                    | Some (v, r) \<Rightarrow> if r = [] then v else NaN)))"

text \<open>\<^verbatim>\<open>Number(v)\<close> on any value (\<^verbatim>\<open>ToNumber\<close>).\<close>

fun Number :: "jsval \<Rightarrow> jsnum" where
  "Number JUndefined = NaN"
| "Number JNull = Fin 0"
| "Number (JBool b) = (if b then Fin 1 else Fin 0)"
| "Number (JNum n) = n"
| "Number (JStr s) = StringToNumber s"

section \<open>The row normalizer\<close>

text \<open>
  A raw row is an object from column name to cell; reading a column that is absent
  gives \<^verbatim>\<open>undefined\<close>.
\<close>

type_synonym rawrow = "string \<rightharpoonup> jsval"

definition cell :: "rawrow \<Rightarrow> string \<Rightarrow> jsval" where
  "cell d k = (case d k of None \<Rightarrow> JUndefined | Some v \<Rightarrow> v)"

text \<open>\<^verbatim>\<open>xs.find(p)\<close>: the first element that satisfies \<open>p\<close>, or \<^verbatim>\<open>undefined\<close>.\<close>

definition array_find :: "(jsval \<Rightarrow> bool) \<Rightarrow> jsval list \<Rightarrow> jsval" where
  "array_find p xs = (case List.find p xs of None \<Rightarrow> JUndefined | Some v \<Rightarrow> v)"

text \<open>
  \<^verbatim>\<open>const get = (keys) => keys.map((k) => d[k]).find((v) => v !== undefined && v !== null) || ''\<close>
\<close>

definition get :: "rawrow \<Rightarrow> string list \<Rightarrow> jsval" where
  "get d keys =
     js_or (array_find (\<lambda>v. v \<noteq> JUndefined \<and> v \<noteq> JNull) (map (cell d) keys)) (JStr [])"

definition sales_keys :: "string list" where
  "sales_keys = [''Sales_amount'', ''sales_amount'', ''Sales Amount'']"

definition month_keys :: "string list" where
  "month_keys = [''Monthsort'', ''Month Sort'', ''monthsort'', ''Month'']"

definition coffee_keys :: "string list" where
  "coffee_keys = [''coffee_name'', ''Coffee Name'', ''coffee'']"

definition id_keys :: "string list" where
  "id_keys = [''transaction_id'', ''Transaction ID'', ''transactio_id'', ''id'']"

definition time_keys :: "string list" where
  "time_keys = [''Time_of_Day'', ''Time of Day'', ''time_of_day'', ''Time'']"

text \<open>
  \<^verbatim>\<open>.replace(/[$,\\s]/g, '')\<close>: in a regular expression literal the two backslashes are
  one escaped backslash, so the class holds the dollar sign, the comma, the backslash
  and the letter \<open>s\<close>.
\<close>

definition strip_money :: "string \<Rightarrow> string" where
  "strip_money s =
     filter (\<lambda>c. c \<noteq> CHR ''$'' \<and> c \<noteq> CHR '','' \<and> c \<noteq> CHR 0x5C \<and> c \<noteq> CHR ''s'') s"

text \<open>
  \<^verbatim>\<open>parseFloat(salesRaw.toString().replace(/[$,\\s]/g, ''))\<close>. Reading \<^verbatim>\<open>toString\<close> of
  \<^verbatim>\<open>undefined\<close> or \<^verbatim>\<open>null\<close> throws a \<^verbatim>\<open>TypeError\<close>. A number prints as digits, a dot, an
  exponent and a sign, or as \<^verbatim>\<open>NaN\<close> or \<^verbatim>\<open>Infinity\<close>: the replacement leaves that text as
  it is and \<^verbatim>\<open>parseFloat\<close> reads the same number back, so the text of a number is not
  spelled out.
\<close>

fun sales_coerce :: "jsval \<Rightarrow> error + jsnum" where
  "sales_coerce JUndefined = Inl TypeError"
| "sales_coerce JNull = Inl TypeError"
| "sales_coerce (JBool b) = Inr (parseFloat (strip_money (if b then ''true'' else ''false'')))"
| "sales_coerce (JNum n) = Inr n"
| "sales_coerce (JStr s) = Inr (parseFloat (strip_money s))"

record transaction =
  sales :: jsnum
  Monthsort :: jsnum
  coffee_name :: jsval
  transaction_id :: jsval
  Time_of_Day :: jsval

text \<open>The body of \<^verbatim>\<open>raw.map((d) => ...)\<close>, lines 44 to 55.\<close>

definition norm_row :: "rawrow \<Rightarrow> error + transaction" where
  "norm_row d =
     (let salesRaw = get d sales_keys
      in case sales_coerce salesRaw of
           Inl e \<Rightarrow> Inl e
         | Inr p \<Rightarrow>
             Inr \<lparr> sales = num_or p (Fin 0),
                   Monthsort = Number (get d month_keys),
                   coffee_name = get d coffee_keys,
                   transaction_id = get d id_keys,
                   Time_of_Day = get d time_keys \<rparr>)"

text \<open>\<^verbatim>\<open>xs.map(f)\<close> where \<open>f\<close> may throw: the first error ends the loop.\<close>

fun map_err :: "('a \<Rightarrow> error + 'b) \<Rightarrow> 'a list \<Rightarrow> error + 'b list" where
  "map_err f [] = Inr []"
| "map_err f (x # xs) =
     (case f x of
        Inl e \<Rightarrow> Inl e
      | Inr y \<Rightarrow> (case map_err f xs of Inl e \<Rightarrow> Inl e | Inr ys \<Rightarrow> Inr (y # ys)))"

definition data :: "rawrow list \<Rightarrow> error + transaction list" where
  "data raw = map_err norm_row raw"

text \<open>
  A normalized record is itself an object, with the five keys of line 54; this is the
  row that a second pass of the normalizer reads.
\<close>

definition as_row :: "transaction \<Rightarrow> rawrow" where
  "as_row t =
     [''sales'' \<mapsto> JNum (sales t),
      ''Monthsort'' \<mapsto> JNum (Monthsort t),
      ''coffee_name'' \<mapsto> coffee_name t,
      ''transaction_id'' \<mapsto> transaction_id t,
      ''Time_of_Day'' \<mapsto> Time_of_Day t]"

text \<open>
  The monetary coercion as the specification words it: currency symbol, thousands
  separators and white space are removed before the text is parsed.
\<close>

definition strip_money_spec :: "string \<Rightarrow> string" where
  "strip_money_spec s = filter (\<lambda>c. c \<noteq> CHR ''$'' \<and> c \<noteq> CHR '','' \<and> \<not> is_ws c) s"

definition is_integer :: "jsnum \<Rightarrow> bool" where
  "is_integer n = (case n of Fin x \<Rightarrow> of_int \<lfloor>x\<rfloor> = x | _ \<Rightarrow> False)"

section \<open>The filter\<close>

text \<open>Lines 64 to 70; the selected product is a string, the month bounds are numbers.\<close>

definition filtered :: "transaction list \<Rightarrow> string \<Rightarrow> jsnum \<Rightarrow> jsnum \<Rightarrow> transaction list" where
  "filtered ds coffee minMonth maxMonth =
     filter (\<lambda>d.
       let coffeeOk = (coffee = ''All'' \<or> strict_eq (coffee_name d) (JStr coffee));
           monthOk = (js_le minMonth (Monthsort d) \<and> js_le (Monthsort d) maxMonth)
       in coffeeOk \<and> monthOk) ds"

section \<open>The aggregator\<close>

text \<open>\<^verbatim>\<open>filtered.reduce((s, d) => s + d.sales, 0)\<close>\<close>

definition sum_sales :: "transaction list \<Rightarrow> jsnum" where
  "sum_sales ds = foldl (\<lambda>s d. js_add s (sales d)) (Fin 0) ds"

definition totalSales :: "transaction list \<Rightarrow> jsnum" where
  "totalSales fs = sum_sales fs"

text \<open>
  A \<^verbatim>\<open>Set\<close> and the keys of a \<^verbatim>\<open>Map\<close> keep the order of first insertion, and compare
  with \<^verbatim>\<open>SameValueZero\<close>, under which \<open>NaN\<close> equals itself; on the values of this model
  it is equality.
\<close>

definition first_seen :: "'a list \<Rightarrow> 'a list" where
  "first_seen xs = foldl (\<lambda>ks x. if x \<in> set ks then ks else ks @ [x]) [] xs"

text \<open>\<^verbatim>\<open>new Set(xs).size\<close>\<close>

definition set_size :: "jsval list \<Rightarrow> nat" where
  "set_size xs = length (first_seen xs)"

definition totalTransactions :: "transaction list \<Rightarrow> nat" where
  "totalTransactions fs = set_size (map transaction_id fs)"

text \<open>\<^verbatim>\<open>totalTransactions ? totalSales / totalTransactions : 0\<close>\<close>

definition avgValue :: "transaction list \<Rightarrow> jsnum" where
  "avgValue fs =
     (if totalTransactions fs \<noteq> 0 then js_div_nat (totalSales fs) (totalTransactions fs)
      else Fin 0)"

definition timeSlots :: "string list" where
  "timeSlots = [''Morning'', ''Afternoon'', ''Night'']"

text \<open>
  \<^verbatim>\<open>Number(x.toFixed(2))\<close>: the nearest multiple of 0.01 and, of two equally near, the one
  larger in magnitude; from \<open>10^21\<close> on \<^verbatim>\<open>toFixed\<close> prints the number itself.
\<close>

fun toFixed2 :: "jsnum \<Rightarrow> jsnum" where
  "toFixed2 (Fin x) =
     (if 10 ^ 21 \<le> \<bar>x\<bar> then Fin x
      else if x < 0 then Fin (- (of_int \<lfloor>- x * 100 + 1 / 2\<rfloor> / 100))
      else Fin (of_int \<lfloor>x * 100 + 1 / 2\<rfloor> / 100))"
| "toFixed2 NaN = NaN"
| "toFixed2 PInf = PInf"
| "toFixed2 NInf = NInf"

text \<open>\<^verbatim>\<open>filtered.filter(d => d.Time_of_Day === slot)\<close>\<close>

definition slotRows :: "transaction list \<Rightarrow> string \<Rightarrow> transaction list" where
  "slotRows fs slot = filter (\<lambda>d. strict_eq (Time_of_Day d) (JStr slot)) fs"

definition slotSales :: "transaction list \<Rightarrow> string \<Rightarrow> jsnum" where
  "slotSales fs slot = sum_sales (slotRows fs slot)"

record slot_entry =
  Slot :: string
  Sales :: jsnum

definition salesByTime :: "transaction list \<Rightarrow> slot_entry list" where
  "salesByTime fs =
     map (\<lambda>slot. \<lparr> Slot = slot, Sales = toFixed2 (slotSales fs slot) \<rparr>) timeSlots"

text \<open>
  \<^verbatim>\<open>xs.sort(cmp)\<close>. The sort is stable, and a comparator result that is \<open>NaN\<close> counts as 0.
  For a consistent comparator every stable sort returns the same array; this one
  inserts each element, from the last to the first, before the first element that it
  does not have to follow.
\<close>

definition follows :: "jsnum \<Rightarrow> bool" where
  "follows v = js_lt (Fin 0) v"

fun insert_sorted :: "('a \<Rightarrow> 'a \<Rightarrow> jsnum) \<Rightarrow> 'a \<Rightarrow> 'a list \<Rightarrow> 'a list" where
  "insert_sorted cmp x [] = [x]"
| "insert_sorted cmp x (y # ys) =
     (if follows (cmp x y) then y # insert_sorted cmp x ys else x # y # ys)"

definition array_sort :: "('a \<Rightarrow> 'a \<Rightarrow> jsnum) \<Rightarrow> 'a list \<Rightarrow> 'a list" where
  "array_sort cmp xs = foldr (insert_sorted cmp) xs []"

text \<open>Lines 86 to 89: \<^verbatim>\<open>sorted[0]?.Time_of_Day || '-'\<close>.\<close>

definition peakTime :: "transaction list \<Rightarrow> string" where
  "peakTime fs =
     (let sorted = array_sort (\<lambda>a b. js_sub (Sales b) (Sales a)) (salesByTime fs)
      in case sorted of [] \<Rightarrow> ''-'' | e # _ \<Rightarrow> if Slot e = [] then ''-'' else Slot e)"

text \<open>
  A \<^verbatim>\<open>Map\<close> keeps its keys in the order of their first insertion: an association list
  in which \<^verbatim>\<open>set\<close> overwrites in place or appends.
\<close>

fun map_get :: "('k \<times> 'v) list \<Rightarrow> 'k \<Rightarrow> 'v option" where
  "map_get [] k = None"
| "map_get ((k', v) # m) k = (if k' = k then Some v else map_get m k)"

fun map_set :: "('k \<times> 'v) list \<Rightarrow> 'k \<Rightarrow> 'v \<Rightarrow> ('k \<times> 'v) list" where
  "map_set [] k v = [(k, v)]"
| "map_set ((k', v') # m) k v = (if k' = k then (k, v) # m else (k', v') # map_set m k v)"

text \<open>\<^verbatim>\<open>map.get(r.coffee_name) || 0\<close>\<close>

definition get_or0 :: "(jsval \<times> jsnum) list \<Rightarrow> jsval \<Rightarrow> jsnum" where
  "get_or0 m k = (case map_get m k of None \<Rightarrow> Fin 0 | Some v \<Rightarrow> num_or v (Fin 0))"

text \<open>The loop of lines 94 to 96.\<close>

fun group_loop :: "(jsval \<times> jsnum) list \<Rightarrow> transaction list \<Rightarrow> (jsval \<times> jsnum) list" where
  "group_loop m [] = m"
| "group_loop m (r # rs) =
     group_loop (map_set m (coffee_name r) (js_add (get_or0 m (coffee_name r)) (sales r))) rs"

record ranked =
  name :: jsval
  total :: jsnum

text \<open>
  Lines 93 to 100, shared by the overall and the per-slot ranking: the entries of the
  map with their totals rounded, then sorted, then the first three.
\<close>

definition entries :: "transaction list \<Rightarrow> ranked list" where
  "entries rs = map (\<lambda>(n, t). \<lparr> name = n, total = toFixed2 t \<rparr>) (group_loop [] rs)"

definition by_total_desc :: "ranked \<Rightarrow> ranked \<Rightarrow> jsnum" where
  "by_total_desc a b = js_sub (total b) (total a)"

definition top3 :: "transaction list \<Rightarrow> ranked list" where
  "top3 rs = take 3 (array_sort by_total_desc (entries rs))"

definition top3Overall :: "transaction list \<Rightarrow> ranked list" where
  "top3Overall fs = top3 fs"

definition top3BySlot :: "transaction list \<Rightarrow> string \<Rightarrow> ranked list" where
  "top3BySlot fs slot = top3 (slotRows fs slot)"

text \<open>The time-of-day table, lines 215 to 220: sales, transactions and average of a slot.\<close>

definition slot_avg :: "transaction list \<Rightarrow> string \<Rightarrow> jsnum" where
  "slot_avg fs slot =
     (let rows = slotRows fs slot;
          s = sum_sales rows;
          t = set_size (map transaction_id rows)
      in if t \<noteq> 0 then js_div_nat s t else Fin 0)"

text \<open>
  Line 60: the \<^verbatim>\<open>Set\<close> of the names that pass \<^verbatim>\<open>filter(Boolean)\<close>, in insertion order.
  Line 61 puts \<^verbatim>\<open>'All'\<close> in front of these names, sorted; sorting does not add or remove
  a name.
\<close>

definition coffeeOptions_set :: "transaction list \<Rightarrow> jsval list" where
  "coffeeOptions_set ds = first_seen (filter truthy (map coffee_name ds))"

section \<open>Notions of the specification\<close>




text \<open>
  A stable descending sort of \<open>es\<close>: the same entries, in non-increasing order of total,
  entries of equal total in their order in \<open>es\<close>.
\<close>

definition stable_desc :: "ranked list \<Rightarrow> ranked list \<Rightarrow> bool" where
  "stable_desc es rs =
     (mset rs = mset es \<and> sorted_wrt (\<lambda>a b. js_le (total b) (total a)) rs \<and>
      (\<forall>t. filter (\<lambda>e. total e = t) rs = filter (\<lambda>e. total e = t) es))"

section \<open>Rows for examples\<close>

text \<open>A normalized record of month 1 with the given sales, product, id and time of day.\<close>

definition row :: "jsnum \<Rightarrow> string \<Rightarrow> string \<Rightarrow> string \<Rightarrow> transaction" where
  "row s n i t =
     \<lparr> sales = s, Monthsort = Fin 1, coffee_name = JStr n, transaction_id = JStr i,
       Time_of_Day = JStr t \<rparr>"

text \<open>
  The scenario of the specification (two lines of one Latte purchase, an Espresso and a
  Cappuccino), with every row in month 1.
\<close>

definition scenario :: "transaction list" where
  "scenario =
     [row (Fin 5) ''Latte'' ''t1'' ''Morning'', row (Fin 3) ''Latte'' ''t1'' ''Morning'',
      row (Fin 10) ''Espresso'' ''t2'' ''Night'', row (Fin 2) ''Cappuccino'' ''t3'' ''Afternoon'']"

text \<open>
  Four products with the sums 1.0009765625, 1.001953125, 1.0029296875 and 1.00390625,
  which doubles hold exactly and which are all reported as 1.00; the name of the last
  product is left open.
\<close>

definition close_sums :: "string \<Rightarrow> transaction list" where
  "close_sums n =
     [row (Fin (1 + 1 / 1024)) ''A'' ''t1'' ''Morning'',
      row (Fin (1 + 2 / 1024)) ''B'' ''t2'' ''Morning'',
      row (Fin (1 + 3 / 1024)) ''C'' ''t3'' ''Morning'',
      row (Fin (1 + 4 / 1024)) n ''t4'' ''Morning'']"


text \<open>Sales of both infinities in the Afternoon, between a Morning of 1 and a Night of 2.\<close>

definition both_infinities :: "transaction list" where
  "both_infinities =
     [row (Fin 1) ''Mocha'' ''t1'' ''Morning'', row PInf ''Latte'' ''t2'' ''Afternoon'',
      row NInf ''Latte'' ''t3'' ''Afternoon'', row (Fin 2) ''Mocha'' ''t4'' ''Night'']"

text \<open>Five products, one of them without a name.\<close>

definition with_nameless :: "transaction list" where
  "with_nameless =
     [row (Fin 1) ''A'' ''t1'' ''Morning'', row (Fin 2) ''B'' ''t2'' ''Morning'',
      row (Fin 3) [] ''t3'' ''Morning'', row (Fin 4) ''D'' ''t4'' ''Morning'',
      row (Fin 5) ''E'' ''t5'' ''Night'']"

section \<open>Lemmas about the normalizer\<close>

lemmas parse_defs = parseFloat_def str_decimal_def unsigned_decimal_def exponent_part_def
  is_digit_def digit_of_def digit_table_def digits_val_def is_ws_def scale10_def StringToNumber_def
  non_decimal_def trim_def strip_money_def Let_def

lemmas row_defs = norm_row_def get_def cell_def array_find_def js_or_def num_or_def
  sales_keys_def month_keys_def coffee_keys_def id_keys_def time_keys_def

lemma get_truthy_or_empty: "truthy (get d keys) \<or> get d keys = JStr []"
  by (simp add: get_def js_or_def)

lemma get_defined: "get d keys \<noteq> JUndefined \<and> get d keys \<noteq> JNull"
  using get_truthy_or_empty [of d keys] by auto

lemma sales_coerce_get: "\<exists>p. sales_coerce (get d keys) = Inr p"
  using get_defined [of d keys] by (cases "get d keys") auto

lemma norm_row_Inr:
  "\<exists>p. sales_coerce (get d sales_keys) = Inr p \<and>
     norm_row d = Inr \<lparr> sales = num_or p (Fin 0), Monthsort = Number (get d month_keys),
       coffee_name = get d coffee_keys, transaction_id = get d id_keys,
       Time_of_Day = get d time_keys \<rparr>"
  using sales_coerce_get [of d sales_keys] by (auto simp: norm_row_def)

lemma map_err_total:
  "(\<And>x. \<exists>y. f x = Inr y) \<Longrightarrow> \<exists>ys. map_err f xs = Inr ys \<and> length ys = length xs"
proof (induction xs)
  case Nil
  then show ?case by simp
next
  case (Cons x xs)
  from Cons.prems obtain y where "f x = Inr y" by blast
  moreover from Cons obtain ys where "map_err f xs = Inr ys" "length ys = length xs" by blast
  ultimately show ?case by simp
qed

lemma data_total: "\<exists>ts. data raw = Inr ts \<and> length ts = length raw"
  unfolding data_def using norm_row_Inr by (intro map_err_total) blast

lemma num_or_not_NaN: "num_or p (Fin 0) \<noteq> NaN"
  by (simp add: num_or_def)

lemma floor_numeral_div: "\<lfloor>numeral a / numeral b :: rat\<rfloor> = numeral a div numeral b"
  using floor_divide_of_int_eq [of "numeral a" "numeral b", where ?'a = rat] by simp

lemma get_as_row_sales: "get (as_row t) sales_keys = JStr []"
  by (simp add: as_row_def row_defs)

lemma get_as_row_month:
  "Number (get (as_row t) month_keys) = (if Monthsort t = NaN then Fin 0 else Monthsort t)"
  by (simp add: as_row_def row_defs parse_defs)

lemma get_as_row_fields:
  "get (as_row t) coffee_keys = js_or (coffee_name t) (JStr [])"
  "get (as_row t) id_keys = js_or (transaction_id t) (JStr [])"
  "get (as_row t) time_keys = js_or (Time_of_Day t) (JStr [])"
  by (auto simp: as_row_def row_defs)

lemma js_or_get: "js_or (get d keys) (JStr []) = get d keys"
  using get_truthy_or_empty [of d keys] by (auto simp: js_or_def)

lemma norm_row_second_pass:
  assumes "norm_row d = Inr t"
  shows "norm_row (as_row t) =
    Inr (t\<lparr> sales := Fin 0, Monthsort := (if Monthsort t = NaN then Fin 0 else Monthsort t) \<rparr>)"
proof -
  from assms norm_row_Inr [of d] obtain p where
    t: "t = \<lparr> sales = num_or p (Fin 0), Monthsort = Number (get d month_keys),
       coffee_name = get d coffee_keys, transaction_id = get d id_keys,
       Time_of_Day = get d time_keys \<rparr>" by auto
  have f: "coffee_name t = get d coffee_keys" "transaction_id t = get d id_keys"
    "Time_of_Day t = get d time_keys" by (simp_all add: t)
  have s: "sales_coerce (get (as_row t) sales_keys) = Inr (parseFloat [])"
    by (simp add: get_as_row_sales strip_money_def)
  have pf: "num_or (parseFloat []) (Fin 0) = Fin 0"
    by (simp add: num_or_def parse_defs)
  show ?thesis
    unfolding norm_row_def Let_def s
    by (simp add: pf get_as_row_month get_as_row_fields f js_or_get)
qed

lemma map_err_second_pass:
  "map_err norm_row raw = Inr ts \<Longrightarrow>
   map_err norm_row (map as_row ts) =
     Inr (map (\<lambda>t. t\<lparr> sales := Fin 0,
        Monthsort := (if Monthsort t = NaN then Fin 0 else Monthsort t) \<rparr>) ts)"
proof (induction raw arbitrary: ts)
  case Nil
  then show ?case by simp
next
  case (Cons d raw)
  from Cons.prems obtain t ts' where t: "norm_row d = Inr t" and r: "map_err norm_row raw = Inr ts'"
    and ts: "ts = t # ts'"
    by (auto split: sum.splits)
  show ?case
    using Cons.IH [OF r] norm_row_second_pass [OF t] by (simp add: ts)
qed

lemma find_first_index:
  assumes "i < length xs" "P (xs ! i)" "\<forall>j<i. \<not> P (xs ! j)"
  shows "List.find P xs = Some (xs ! i)"
  using assms by (auto simp: find_Some_iff)

lemma get_first_alias:
  assumes "i < length keys" "cell d (keys ! i) \<noteq> JUndefined" "cell d (keys ! i) \<noteq> JNull"
    and "\<forall>j<i. cell d (keys ! j) = JUndefined \<or> cell d (keys ! j) = JNull"
  shows "get d keys = (if truthy (cell d (keys ! i)) then cell d (keys ! i) else JStr [])"
proof -
  have "List.find (\<lambda>v. v \<noteq> JUndefined \<and> v \<noteq> JNull) (map (cell d) keys) =
      Some (map (cell d) keys ! i)"
    using assms by (intro find_first_index) auto
  then show ?thesis using assms(1) by (simp add: get_def array_find_def js_or_def)
qed

lemma get_no_alias:
  assumes "\<forall>k\<in>set keys. cell d k = JUndefined \<or> cell d k = JNull"
  shows "get d keys = JStr []"
proof -
  have "List.find (\<lambda>v. v \<noteq> JUndefined \<and> v \<noteq> JNull) (map (cell d) keys) = None"
    using assms by (auto simp: find_None_iff)
  then show ?thesis by (simp add: get_def array_find_def js_or_def)
qed

section \<open>Properties of the normalizer\<close>

subsection \<open>A second pass of the normalizer\<close>

text \<open>
  Claim C1, as amended: normalizing the output of the normalizer again returns, for every
  list of rows, the same records except for two fields. \<open>sales\<close> is reset to 0, because
  the key \<^verbatim>\<open>sales\<close> of a normalized record is none of the aliases of the sales column;
  a \<open>Monthsort\<close> that is \<open>NaN\<close> becomes 0. \<open>coffee_name\<close>, \<open>transaction_id\<close>,
  \<open>Time_of_Day\<close> and every other \<open>Monthsort\<close> are preserved.
\<close>

theorem second_pass_resets_sales:
  "\<exists>ts. data raw = Inr ts \<and>
     data (map as_row ts) =
       Inr (map (\<lambda>t. t\<lparr> sales := Fin 0,
         Monthsort := (if Monthsort t = NaN then Fin 0 else Monthsort t) \<rparr>) ts)"
  using data_total [of raw] map_err_second_pass [of raw] by (auto simp: data_def)

theorem second_pass_resets_sales_witness:
  "\<exists>ts. data [[''Sales_amount'' \<mapsto> JStr ''5'', ''Month'' \<mapsto> JStr ''abc'',
                 ''coffee'' \<mapsto> JStr ''Latte'']] = Inr ts \<and>
     data (map as_row ts) =
       Inr (map (\<lambda>t. t\<lparr> sales := Fin 0,
         Monthsort := (if Monthsort t = NaN then Fin 0 else Monthsort t) \<rparr>) ts)"
  using second_pass_resets_sales
    [of "[[''Sales_amount'' \<mapsto> JStr ''5'', ''Month'' \<mapsto> JStr ''abc'',
           ''coffee'' \<mapsto> JStr ''Latte'']]"]
  by simp

text \<open>
  Claim C1 as stated fails: a row with sales 5 has sales 0 after the second pass.
\<close>

theorem idempotence_counterexample:
  "data [[''Sales_amount'' \<mapsto> JStr ''5'', ''Monthsort'' \<mapsto> JNum (Fin 1),
          ''coffee_name'' \<mapsto> JStr ''Latte'']] =
     Inr [\<lparr> sales = Fin 5, Monthsort = Fin 1, coffee_name = JStr ''Latte'',
            transaction_id = JStr [], Time_of_Day = JStr [] \<rparr>] \<and>
   data (map as_row [\<lparr> sales = Fin 5, Monthsort = Fin 1, coffee_name = JStr ''Latte'',
            transaction_id = JStr [], Time_of_Day = JStr [] \<rparr>]) =
     Inr [\<lparr> sales = Fin 0, Monthsort = Fin 1, coffee_name = JStr ''Latte'',
            transaction_id = JStr [], Time_of_Day = JStr [] \<rparr>]"
  by (simp add: data_def as_row_def row_defs parse_defs)

subsection \<open>The sales field\<close>

text \<open>
  Claim C2, as amended: for every raw row the normalizer returns a record and raises no
  error; its \<open>sales\<close> is never \<open>NaN\<close>, and it is 0 whenever the monetary cell does not
  parse (\<^verbatim>\<open>parseFloat\<close> gives \<open>NaN\<close>). The value may be negative or infinite.
\<close>

theorem sales_never_NaN:
  "(\<exists>t. norm_row d = Inr t \<and> sales t \<noteq> NaN \<and>
      (sales_coerce (get d sales_keys) = Inr NaN \<longrightarrow> sales t = Fin 0))
   \<and> (\<exists>ts. data raw = Inr ts \<and> length ts = length raw)"
proof -
  obtain p where p: "sales_coerce (get d sales_keys) = Inr p"
    and n: "norm_row d = Inr \<lparr> sales = num_or p (Fin 0), Monthsort = Number (get d month_keys),
       coffee_name = get d coffee_keys, transaction_id = get d id_keys,
       Time_of_Day = get d time_keys \<rparr>"
    using norm_row_Inr by blast
  have "sales_coerce (get d sales_keys) = Inr NaN \<longrightarrow> num_or p (Fin 0) = Fin 0"
    using p by (auto simp: num_or_def)
  with n show ?thesis using data_total [of raw] by (simp add: num_or_not_NaN)
qed

theorem sales_never_NaN_witness:
  "sales_coerce (get [''Sales_amount'' \<mapsto> JStr ''abc''] sales_keys) = Inr NaN \<and>
   norm_row [''Sales_amount'' \<mapsto> JStr ''abc''] =
     Inr \<lparr> sales = Fin 0, Monthsort = Fin 0, coffee_name = JStr [], transaction_id = JStr [],
           Time_of_Day = JStr [] \<rparr> \<and>
   (\<exists>ts. data [[''Sales_amount'' \<mapsto> JStr ''abc'']] = Inr ts \<and> length ts = 1)"
  using sales_never_NaN
    [of "[''Sales_amount'' \<mapsto> JStr ''abc'']" "[[''Sales_amount'' \<mapsto> JStr ''abc'']]"]
  by (simp add: row_defs parse_defs)

text \<open>
  Claim C2 as stated fails: the cell \<^verbatim>\<open>"-5"\<close> gives the negative \<open>sales\<close> of -5.
\<close>

theorem sales_negative_counterexample:
  "norm_row [''Sales_amount'' \<mapsto> JStr ''-5''] =
     Inr \<lparr> sales = Fin (- 5), Monthsort = Fin 0, coffee_name = JStr [], transaction_id = JStr [],
           Time_of_Day = JStr [] \<rparr> \<and> \<not> js_le (Fin 0) (Fin (- 5))"
  by (simp add: row_defs parse_defs)

subsection \<open>The monetary coercion\<close>

text \<open>The three examples of claim C3, which the code meets.\<close>

lemma monetary_examples:
  "sales_coerce (JStr ''$1,234.50'') = Inr (Fin (2469 / 2))"
  "num_or (parseFloat (strip_money ''abc'')) (Fin 0) = Fin 0"
  "num_or (parseFloat (strip_money [])) (Fin 0) = Fin 0"
  by (simp_all add: parse_defs num_or_def)

text \<open>
  Claim C3, at the input where the code departs from it: the cell \<^verbatim>\<open>"1 234.50"\<close>. The
  code leaves the space in the text, \<^verbatim>\<open>parseFloat\<close> stops at it and \<open>sales\<close> is 1;
  with white space removed first, as the claim says, the value is 1234.5.
\<close>

theorem inner_space_not_stripped:
  "norm_row [''Sales_amount'' \<mapsto> JStr ''1 234.50''] =
     Inr \<lparr> sales = Fin 1, Monthsort = Fin 0, coffee_name = JStr [], transaction_id = JStr [],
           Time_of_Day = JStr [] \<rparr> \<and>
   num_or (parseFloat (strip_money_spec ''1 234.50'')) (Fin 0) = Fin (2469 / 2)"
  by (simp add: row_defs parse_defs strip_money_spec_def)

subsection \<open>The month field\<close>

text \<open>
  Claim C4, as amended: the month field is coerced with \<^verbatim>\<open>Number\<close>, without rounding to an
  integer. A cell whose text is not a numeric literal gives \<open>NaN\<close>, a row with no month
  cell gives 0, the normalizer raises no error, and a row whose \<open>Monthsort\<close> is \<open>NaN\<close>
  fails both comparisons of the month range and is in no filtered subset, whatever the
  bounds and the selected product.
\<close>

theorem month_NaN_excluded:
  "(get d month_keys = JStr s \<and> StringToNumber s = NaN \<longrightarrow>
      (\<exists>t. norm_row d = Inr t \<and> Monthsort t = NaN)) \<and>
   ((\<forall>k\<in>set month_keys. cell d k = JUndefined \<or> cell d k = JNull) \<longrightarrow>
      (\<exists>t. norm_row d = Inr t \<and> Monthsort t = Fin 0)) \<and>
   (\<exists>t. norm_row d = Inr t \<and> Monthsort t = Number (get d month_keys)) \<and>
   (Monthsort r = NaN \<longrightarrow> \<not> js_le mn (Monthsort r) \<and> \<not> js_le (Monthsort r) mx \<and>
      r \<notin> set (filtered ds coffee mn mx))"
proof -
  have a: "\<exists>t. norm_row d = Inr t \<and> Monthsort t = Number (get d month_keys)"
    using norm_row_Inr [of d] by auto
  have b: "\<not> js_le mn NaN" "\<not> js_le NaN mx"
    by (cases mn; simp) (cases mx; simp)
  have c: "Number (get d month_keys) = Fin 0"
    if "\<forall>k\<in>set month_keys. cell d k = JUndefined \<or> cell d k = JNull"
    using get_no_alias [OF that] by (simp add: StringToNumber_def trim_def)
  show ?thesis using a b c by (auto simp: filtered_def)
qed

theorem month_NaN_excluded_witness:
  "get [''Month'' \<mapsto> JStr ''abc''] month_keys = JStr ''abc'' \<and> StringToNumber ''abc'' = NaN \<and>
   (\<exists>t. norm_row [''Month'' \<mapsto> JStr ''abc''] = Inr t \<and> Monthsort t = NaN) \<and>
   (\<exists>t. norm_row [''Sales_amount'' \<mapsto> JStr ''5''] = Inr t \<and> Monthsort t = Fin 0) \<and>
   \<lparr> sales = Fin 0, Monthsort = NaN, coffee_name = JStr [], transaction_id = JStr [],
     Time_of_Day = JStr [] \<rparr>
     \<notin> set (filtered [\<lparr> sales = Fin 0, Monthsort = NaN, coffee_name = JStr [],
         transaction_id = JStr [], Time_of_Day = JStr [] \<rparr>] ''All'' (Fin 1) (Fin 12))"
  using month_NaN_excluded [of "[''Month'' \<mapsto> JStr ''abc'']" "''abc''"
      "\<lparr> sales = Fin 0, Monthsort = NaN, coffee_name = JStr [], transaction_id = JStr [],
         Time_of_Day = JStr [] \<rparr>" "Fin 1" "Fin 12"
      "[\<lparr> sales = Fin 0, Monthsort = NaN, coffee_name = JStr [], transaction_id = JStr [],
         Time_of_Day = JStr [] \<rparr>]" "''All''"]
    month_NaN_excluded [of "[''Sales_amount'' \<mapsto> JStr ''5'']"]
  by (simp add: row_defs parse_defs)

text \<open>
  Claim C4 as stated fails: the numeric cell 1.5 stays 1.5, which is no integer, and the
  row passes the month range 1 to 12.
\<close>

theorem month_not_integer_counterexample:
  "norm_row [''Monthsort'' \<mapsto> JNum (Fin (3 / 2))] =
     Inr \<lparr> sales = Fin 0, Monthsort = Fin (3 / 2), coffee_name = JStr [],
           transaction_id = JStr [], Time_of_Day = JStr [] \<rparr> \<and>
   \<not> is_integer (Fin (3 / 2)) \<and>
   filtered [\<lparr> sales = Fin 0, Monthsort = Fin (3 / 2), coffee_name = JStr [],
           transaction_id = JStr [], Time_of_Day = JStr [] \<rparr>] ''All'' (Fin 1) (Fin 12) =
     [\<lparr> sales = Fin 0, Monthsort = Fin (3 / 2), coffee_name = JStr [],
           transaction_id = JStr [], Time_of_Day = JStr [] \<rparr>]"
  by (simp add: row_defs parse_defs is_integer_def filtered_def floor_numeral_div)

subsection \<open>Alias resolution\<close>

text \<open>
  Claim C5, as amended: alias resolution stops at the first alias whose cell is neither
  \<^verbatim>\<open>null\<close> nor \<^verbatim>\<open>undefined\<close>; it returns that cell when it is truthy and the empty
  string when it is falsy (0, \<open>NaN\<close>, \<^verbatim>\<open>false\<close>, the empty string), and later aliases are
  not read. When no alias has such a cell the result is the empty string. The name, id
  and time-of-day fields of the normalized record are these results.
\<close>

theorem get_first_present:
  "(i < length keys \<and> cell d (keys ! i) \<noteq> JUndefined \<and> cell d (keys ! i) \<noteq> JNull \<and>
      (\<forall>j<i. cell d (keys ! j) = JUndefined \<or> cell d (keys ! j) = JNull) \<longrightarrow>
      get d keys = (if truthy (cell d (keys ! i)) then cell d (keys ! i) else JStr [])) \<and>
   ((\<forall>k\<in>set keys. cell d k = JUndefined \<or> cell d k = JNull) \<longrightarrow> get d keys = JStr []) \<and>
   (\<exists>t. norm_row d = Inr t \<and> coffee_name t = get d coffee_keys \<and>
      transaction_id t = get d id_keys \<and> Time_of_Day t = get d time_keys)"
proof -
  have "\<exists>t. norm_row d = Inr t \<and> coffee_name t = get d coffee_keys \<and>
      transaction_id t = get d id_keys \<and> Time_of_Day t = get d time_keys"
    using norm_row_Inr [of d] by auto
  then show ?thesis
    using get_first_alias [of i keys d] get_no_alias [of keys d] by blast
qed

theorem get_first_present_witness:
  "cell [''Coffee Name'' \<mapsto> JStr ''Mocha'', ''coffee'' \<mapsto> JStr ''Latte''] ''coffee_name'' =
     JUndefined \<and>
   get [''Coffee Name'' \<mapsto> JStr ''Mocha'', ''coffee'' \<mapsto> JStr ''Latte''] coffee_keys =
     JStr ''Mocha'' \<and>
   get [''Coffee Name'' \<mapsto> JNull] coffee_keys = JStr []"
  using get_first_present
      [of 1 coffee_keys "[''Coffee Name'' \<mapsto> JStr ''Mocha'', ''coffee'' \<mapsto> JStr ''Latte'']"]
    get_first_present [of 0 coffee_keys "[''Coffee Name'' \<mapsto> JNull]"]
  by (simp add: coffee_keys_def cell_def less_Suc_eq)

text \<open>
  Claim C5 as stated fails: the first present cell is the number 0, and the resolved
  value is the empty string, not 0.
\<close>

theorem get_falsy_counterexample:
  "cell [''coffee_name'' \<mapsto> JNum (Fin 0), ''Coffee Name'' \<mapsto> JStr ''Latte'']
     ''coffee_name'' = JNum (Fin 0) \<and>
   get [''coffee_name'' \<mapsto> JNum (Fin 0), ''Coffee Name'' \<mapsto> JStr ''Latte''] coffee_keys =
     JStr []"
  by (simp add: row_defs)

section \<open>Lemmas about the aggregator\<close>

lemma foldl_seen_set:
  "set (foldl (\<lambda>ks x. if x \<in> set ks then ks else ks @ [x]) ks xs) = set ks \<union> set xs"
  by (induction xs arbitrary: ks) auto

lemma foldl_seen_distinct:
  "distinct ks \<Longrightarrow> distinct (foldl (\<lambda>ks x. if x \<in> set ks then ks else ks @ [x]) ks xs)"
  by (induction xs arbitrary: ks) auto

lemma set_first_seen: "set (first_seen xs) = set xs"
  by (simp add: first_seen_def foldl_seen_set)

lemma distinct_first_seen: "distinct (first_seen xs)"
  by (simp add: first_seen_def foldl_seen_distinct)








lemmas agg_defs = totalSales_def sum_sales_def totalTransactions_def set_size_def first_seen_def
  avgValue_def slot_avg_def slotRows_def slotSales_def salesByTime_def timeSlots_def strict_eq_def
  row_def

lemma floor_one_div: "\<lfloor>1 / numeral b :: rat\<rfloor> = 1 div numeral b"
  using floor_divide_of_int_eq [of 1 "numeral b", where ?'a = rat] by simp





lemma follows_sub: "a \<noteq> NaN \<Longrightarrow> b \<noteq> NaN \<Longrightarrow> follows (js_sub b a) = js_lt a b"
  by (cases a; cases b) (auto simp: follows_def js_sub_def)

lemma follows_sub_neq: "follows (js_sub b a) \<Longrightarrow> a \<noteq> b"
  by (cases a; cases b) (auto simp: follows_def js_sub_def)

lemma js_not_lt_le: "a \<noteq> NaN \<Longrightarrow> b \<noteq> NaN \<Longrightarrow> \<not> js_lt a b \<Longrightarrow> js_le b a"
  by (cases a; cases b) auto

lemma js_lt_le: "js_lt a b \<Longrightarrow> js_le a b"
  by (cases a; cases b) auto

lemma js_le_trans: "js_le a b \<Longrightarrow> js_le b c \<Longrightarrow> js_le a c"
  by (cases a; cases b; cases c) auto

lemma js_le_refl: "a \<noteq> NaN \<Longrightarrow> js_le a a"
  by (cases a) auto

lemma js_le_neq_lt: "js_le a b \<Longrightarrow> a \<noteq> b \<Longrightarrow> js_lt a b"
  by (cases a; cases b) auto

lemma js_le_not_NaN: "js_le a b \<Longrightarrow> a \<noteq> NaN \<and> b \<noteq> NaN"
  by (cases a; cases b) auto

lemma toFixed2_NaN: "toFixed2 x = NaN \<longleftrightarrow> x = NaN"
  by (cases x) auto

lemma mset_insert_sorted: "mset (insert_sorted cmp x ys) = add_mset x (mset ys)"
  by (induction ys) auto

lemma mset_array_sort: "mset (array_sort cmp xs) = mset xs"
  unfolding array_sort_def by (induction xs) (auto simp: mset_insert_sorted)

lemma set_array_sort: "set (array_sort cmp xs) = set xs"
  using mset_array_sort [of cmp xs] by (metis set_mset_mset)


lemma set_insert_sorted: "set (insert_sorted cmp x ys) = insert x (set ys)"
  using mset_insert_sorted [of cmp x ys] by (metis set_mset_add_mset_insert set_mset_mset)

lemma sorted_insert_sorted:
  assumes "k x \<noteq> NaN" "\<forall>y\<in>set ys. k y \<noteq> NaN"
    and "sorted_wrt (\<lambda>a b. js_le (k b) (k a)) ys"
  shows "sorted_wrt (\<lambda>a b. js_le (k b) (k a)) (insert_sorted (\<lambda>a b. js_sub (k b) (k a)) x ys)"
  using assms
proof (induction ys)
  case Nil
  then show ?case by simp
next
  case (Cons y ys)
  show ?case
  proof (cases "js_lt (k x) (k y)")
    case True
    then have "js_le (k x) (k y)" by (rule js_lt_le)
    with Cons True show ?thesis
      by (auto simp: follows_sub set_insert_sorted)
  next
    case False
    with Cons.prems have xy: "js_le (k y) (k x)" by (auto intro: js_not_lt_le)
    have "\<forall>z\<in>set ys. js_le (k z) (k x)"
      using Cons.prems(3) xy by (auto intro: js_le_trans)
    with Cons.prems False xy show ?thesis by (auto simp: follows_sub)
  qed
qed

lemma sorted_array_sort:
  assumes "\<forall>y\<in>set xs. k y \<noteq> NaN"
  shows "sorted_wrt (\<lambda>a b. js_le (k b) (k a)) (array_sort (\<lambda>a b. js_sub (k b) (k a)) xs)"
  using assms
proof (induction xs)
  case Nil
  then show ?case by (simp add: array_sort_def)
next
  case (Cons x xs)
  have "sorted_wrt (\<lambda>a b. js_le (k b) (k a))
     (insert_sorted (\<lambda>a b. js_sub (k b) (k a)) x (array_sort (\<lambda>a b. js_sub (k b) (k a)) xs))"
    using Cons by (intro sorted_insert_sorted) (auto simp: set_array_sort)
  then show ?case by (simp add: array_sort_def)
qed

lemma filter_insert_sorted:
  "filter (\<lambda>e. k e = t) (insert_sorted (\<lambda>a b. js_sub (k b) (k a)) x ys) =
   filter (\<lambda>e. k e = t) (x # ys)"
proof (induction ys)
  case Nil
  then show ?case by simp
next
  case (Cons y ys)
  show ?case
  proof (cases "follows (js_sub (k y) (k x))")
    case True
    then have "k x \<noteq> k y" by (rule follows_sub_neq)
    with True Cons show ?thesis by auto
  next
    case False
    then show ?thesis by simp
  qed
qed

lemma filter_array_sort:
  "filter (\<lambda>e. k e = t) (array_sort (\<lambda>a b. js_sub (k b) (k a)) xs) = filter (\<lambda>e. k e = t) xs"
  unfolding array_sort_def by (induction xs) (simp_all add: filter_insert_sorted)

lemma keys_map_set:
  "map fst (map_set m k v) = (if k \<in> set (map fst m) then map fst m else map fst m @ [k])"
proof (induction m)
  case Nil
  then show ?case by simp
next
  case (Cons p m)
  obtain k' v' where p: "p = (k', v')" by (cases p)
  show ?case
  proof (cases "k' = k")
    case True
    then show ?thesis by (simp add: p)
  next
    case False
    with Cons show ?thesis by (simp add: p)
  qed
qed

lemma keys_group_loop:
  "map fst (group_loop m rs) =
   foldl (\<lambda>ks x. if x \<in> set ks then ks else ks @ [x]) (map fst m) (map coffee_name rs)"
  by (induction rs arbitrary: m) (simp_all add: keys_map_set)

lemma keys_group_loop_Nil: "map fst (group_loop [] rs) = first_seen (map coffee_name rs)"
  by (simp add: keys_group_loop first_seen_def)








lemma names_entries: "map name (entries rs) = first_seen (map coffee_name rs)"
proof -
  have "map name (entries rs) = map fst (group_loop [] rs)"
    by (simp add: entries_def comp_def case_prod_unfold)
  then show ?thesis by (simp add: keys_group_loop_Nil)
qed


lemma peakTime_cases:
  assumes a: "a \<noteq> NaN" and b: "b \<noteq> NaN" and c: "c \<noteq> NaN"
  shows "array_sort (\<lambda>x y. js_sub (Sales y) (Sales x))
      [\<lparr> Slot = ''Morning'', Sales = a \<rparr>, \<lparr> Slot = ''Afternoon'', Sales = b \<rparr>,
       \<lparr> Slot = ''Night'', Sales = c \<rparr>] \<noteq> [] \<and>
    Slot (hd (array_sort (\<lambda>x y. js_sub (Sales y) (Sales x))
      [\<lparr> Slot = ''Morning'', Sales = a \<rparr>, \<lparr> Slot = ''Afternoon'', Sales = b \<rparr>,
       \<lparr> Slot = ''Night'', Sales = c \<rparr>])) =
    (if js_lt b c then (if js_lt a c then ''Night'' else ''Morning'')
     else (if js_lt a b then ''Afternoon'' else ''Morning''))"
  by (simp add: array_sort_def follows_sub a b c)

lemma by_total_desc_eq: "by_total_desc = (\<lambda>a b. js_sub (total b) (total a))"
  by (simp add: by_total_desc_def fun_eq_iff)

lemma stable_desc_array_sort:
  assumes "\<forall>e\<in>set es. total e \<noteq> NaN"
  shows "stable_desc es (array_sort by_total_desc es)"
  unfolding stable_desc_def by_total_desc_eq
  using mset_array_sort sorted_array_sort [of es total, OF assms] filter_array_sort [of total]
  by blast



lemmas rank_defs = top3Overall_def top3BySlot_def top3_def entries_def by_total_desc_def
  array_sort_def follows_def js_sub_def get_or0_def num_or_def

lemma distinct_names_sorted: "distinct (map name (array_sort cmp (entries rs)))"
proof -
  have "mset (map name (array_sort cmp (entries rs))) = mset (map name (entries rs))"
    by (simp add: mset_array_sort)
  moreover have "distinct (map name (entries rs))"
    by (simp add: names_entries distinct_first_seen)
  ultimately show ?thesis by (metis distinct_count_atmost_1 set_mset_mset)
qed

lemma length_filter_mset_eq:
  assumes "mset xs = mset ys"
  shows "length (filter P xs) = length (filter P ys)"
proof -
  have "size (mset (filter P xs)) = size (mset (filter P ys))"
    using assms by (simp only: mset_filter)
  then show ?thesis by (simp only: size_mset)
qed

lemma top3_contains:
  assumes nan: "\<forall>g\<in>set (entries rs). total g \<noteq> NaN"
    and e: "e \<in> set (entries rs)"
    and few: "length (filter (\<lambda>g. name g \<noteq> name e \<and> js_le (total e) (total g)) (entries rs)) \<le> 2"
  shows "e \<in> set (top3 rs)"
proof -
  let ?s = "array_sort by_total_desc (entries rs)"
  let ?P = "\<lambda>g. name g \<noteq> name e \<and> js_le (total e) (total g)"
  have sd: "stable_desc (entries rs) ?s" using nan by (rule stable_desc_array_sort)
  then have ms: "mset ?s = mset (entries rs)"
    and so: "sorted_wrt (\<lambda>a b. js_le (total b) (total a)) ?s"
    by (simp_all add: stable_desc_def)
  from e ms have "e \<in> set ?s" by (metis set_mset_mset)
  then obtain xs ys where split: "?s = xs @ e # ys" by (meson split_list)
  have dn: "distinct (map name ?s)" by (rule distinct_names_sorted)
  have "\<forall>g\<in>set xs. ?P g"
  proof
    fix g assume g: "g \<in> set xs"
    from so split g have "js_le (total e) (total g)" by (simp add: sorted_wrt_append)
    moreover have "name g \<noteq> name e"
    proof
      assume "name g = name e"
      with g have "name e \<in> name ` set xs" by (metis imageI)
      with dn split show False by simp
    qed
    ultimately show "?P g" by simp
  qed
  then have "length xs = length (filter ?P xs)" by simp
  also have "\<dots> \<le> length (filter ?P ?s)" by (simp add: split)
  also have "\<dots> = length (filter ?P (entries rs))" using ms by (rule length_filter_mset_eq)
  finally have "length xs < 3" using few by simp
  then obtain k where "3 - length xs = Suc k" by (metis Suc_diff_Suc)
  then have "take 3 ?s = xs @ e # take k ys" by (simp add: split)
  then have "e \<in> set (take 3 ?s)" by simp
  then show ?thesis by (simp add: top3_def)
qed

lemma empty_name_group:
  assumes "\<exists>r\<in>set rs. coffee_name r = JStr []"
  shows "\<exists>e\<in>set (entries rs). name e = JStr []"
proof -
  from assms have "JStr [] \<in> set (first_seen (map coffee_name rs))"
    by (force simp: set_first_seen)
  then have "JStr [] \<in> set (map name (entries rs))" by (simp add: names_entries)
  then show ?thesis by auto
qed

section \<open>Properties of the aggregator\<close>

subsection \<open>Slot sums and the total\<close>




subsection \<open>The overall ranking\<close>




subsection \<open>The peak time of day\<close>

text \<open>
  Claim C8, as amended: when no slot sum is \<open>NaN\<close>, \<open>peakTime\<close> is one of the three slots, it
  is never the \<^verbatim>\<open>'-'\<close> sentinel (the slot list is never empty), its reported total, the
  slot sum rounded to 2 decimals, is at least that of every slot, and every slot before
  it in the order Morning, Afternoon, Night has a strictly smaller reported total.
\<close>

theorem peakTime_first_maximum:
  assumes "\<forall>s\<in>set timeSlots. slotSales fs s \<noteq> NaN"
  shows "\<exists>p\<in>set timeSlots. peakTime fs = p \<and> peakTime fs \<noteq> ''-'' \<and>
    (\<forall>s\<in>set timeSlots. js_le (toFixed2 (slotSales fs s)) (toFixed2 (slotSales fs p))) \<and>
    (\<forall>s\<in>set (takeWhile (\<lambda>s. s \<noteq> p) timeSlots).
        js_lt (toFixed2 (slotSales fs s)) (toFixed2 (slotSales fs p)))"
proof -
  let ?a = "toFixed2 (slotSales fs ''Morning'')"
  let ?b = "toFixed2 (slotSales fs ''Afternoon'')"
  let ?c = "toFixed2 (slotSales fs ''Night'')"
  have n: "?a \<noteq> NaN" "?b \<noteq> NaN" "?c \<noteq> NaN"
    using assms by (simp_all add: timeSlots_def toFixed2_NaN)
  let ?sorted = "array_sort (\<lambda>x y. js_sub (Sales y) (Sales x))
      [\<lparr> Slot = ''Morning'', Sales = ?a \<rparr>, \<lparr> Slot = ''Afternoon'', Sales = ?b \<rparr>,
       \<lparr> Slot = ''Night'', Sales = ?c \<rparr>]"
  have ne: "?sorted \<noteq> []" and hd: "Slot (hd ?sorted) =
    (if js_lt ?b ?c then (if js_lt ?a ?c then ''Night'' else ''Morning'')
     else (if js_lt ?a ?b then ''Afternoon'' else ''Morning''))"
    using peakTime_cases [OF n] by blast+
  have "peakTime fs = (if Slot (hd ?sorted) = [] then ''-'' else Slot (hd ?sorted))"
    using ne by (cases ?sorted) (simp_all add: peakTime_def salesByTime_def timeSlots_def)
  then have p: "peakTime fs =
    (if js_lt ?b ?c then (if js_lt ?a ?c then ''Night'' else ''Morning'')
     else (if js_lt ?a ?b then ''Afternoon'' else ''Morning''))"
    by (simp add: hd)
  note r = js_le_refl [OF n(1)] js_le_refl [OF n(2)] js_le_refl [OF n(3)]
  consider (night) "js_lt ?b ?c" "js_lt ?a ?c"
    | (morning1) "js_lt ?b ?c" "\<not> js_lt ?a ?c"
    | (afternoon) "\<not> js_lt ?b ?c" "js_lt ?a ?b"
    | (morning2) "\<not> js_lt ?b ?c" "\<not> js_lt ?a ?b"
    by blast
  then show ?thesis
  proof cases
    case night
    then have "peakTime fs = ''Night''" by (simp add: p)
    with night r show ?thesis by (simp add: timeSlots_def js_lt_le)
  next
    case morning1
    then have "peakTime fs = ''Morning''" by (simp add: p)
    moreover have "js_le ?c ?a" using morning1 n by (auto intro: js_not_lt_le)
    moreover then have "js_le ?b ?a" using morning1 by (auto intro: js_le_trans js_lt_le)
    ultimately show ?thesis using r by (simp add: timeSlots_def)
  next
    case afternoon
    then have "peakTime fs = ''Afternoon''" by (simp add: p)
    moreover have "js_le ?c ?b" using afternoon n by (auto intro: js_not_lt_le)
    ultimately show ?thesis using r afternoon by (simp add: timeSlots_def js_lt_le)
  next
    case morning2
    then have "peakTime fs = ''Morning''" by (simp add: p)
    moreover have "js_le ?b ?a" using morning2 n by (auto intro: js_not_lt_le)
    moreover have "js_le ?c ?b" using morning2 n by (auto intro: js_not_lt_le)
    moreover then have "js_le ?c ?a" using \<open>js_le ?b ?a\<close> by (auto intro: js_le_trans)
    ultimately show ?thesis using r by (simp add: timeSlots_def)
  qed
qed

theorem peakTime_first_maximum_witness:
  "list_all (\<lambda>s. slotSales scenario s \<noteq> NaN) timeSlots \<and>
   salesByTime scenario =
     [\<lparr> Slot = ''Morning'', Sales = Fin 8 \<rparr>, \<lparr> Slot = ''Afternoon'', Sales = Fin 2 \<rparr>,
      \<lparr> Slot = ''Night'', Sales = Fin 10 \<rparr>] \<and>
   peakTime scenario = ''Night''"
proof -
  have h: "\<forall>s\<in>set timeSlots. slotSales scenario s \<noteq> NaN"
    by (simp add: scenario_def agg_defs)
  have l: "list_all (\<lambda>s. slotSales scenario s \<noteq> NaN) timeSlots"
    by (simp add: scenario_def agg_defs)
  have v: "salesByTime scenario =
     [\<lparr> Slot = ''Morning'', Sales = Fin 8 \<rparr>, \<lparr> Slot = ''Afternoon'', Sales = Fin 2 \<rparr>,
      \<lparr> Slot = ''Night'', Sales = Fin 10 \<rparr>]"
    by (simp add: scenario_def agg_defs floor_numeral_div floor_one_div)
  from peakTime_first_maximum [OF h] obtain p where p: "p \<in> set timeSlots" "peakTime scenario = p"
    "\<forall>s\<in>set timeSlots. js_le (toFixed2 (slotSales scenario s)) (toFixed2 (slotSales scenario p))"
    by blast
  have s: "toFixed2 (slotSales scenario ''Morning'') = Fin 8"
    "toFixed2 (slotSales scenario ''Afternoon'') = Fin 2"
    "toFixed2 (slotSales scenario ''Night'') = Fin 10"
    by (simp_all add: scenario_def agg_defs floor_numeral_div floor_one_div)
  from p(1,3) have "p = ''Night''"
    by (auto simp: timeSlots_def s)
  with p(2) l v show ?thesis by simp
qed

text \<open>
  Claim C8 as stated fails. With a Morning sum of 5.001953125 and a larger Afternoon sum
  of 5.00390625, both reported as 5, the peak is Morning. With a Morning sum of 1, an
  Afternoon sum that is \<open>NaN\<close> (sales of both infinities) and a Night sum of 2, the peak
  is Morning.
\<close>

theorem peakTime_counterexample:
  "peakTime [row (Fin (5 + 1 / 512)) ''Latte'' ''t1'' ''Morning'',
             row (Fin (5 + 1 / 256)) ''Latte'' ''t2'' ''Afternoon''] = ''Morning'' \<and>
   slotSales [row (Fin (5 + 1 / 512)) ''Latte'' ''t1'' ''Morning'',
              row (Fin (5 + 1 / 256)) ''Latte'' ''t2'' ''Afternoon''] ''Morning'' =
     Fin (2561 / 512) \<and>
   slotSales [row (Fin (5 + 1 / 512)) ''Latte'' ''t1'' ''Morning'',
              row (Fin (5 + 1 / 256)) ''Latte'' ''t2'' ''Afternoon''] ''Afternoon'' =
     Fin (1281 / 256) \<and>
   js_lt (Fin (2561 / 512)) (Fin (1281 / 256)) \<and>
   peakTime both_infinities = ''Morning'' \<and>
   salesByTime both_infinities =
     [\<lparr> Slot = ''Morning'', Sales = Fin 1 \<rparr>, \<lparr> Slot = ''Afternoon'', Sales = NaN \<rparr>,
      \<lparr> Slot = ''Night'', Sales = Fin 2 \<rparr>]"
  by (simp add: both_infinities_def agg_defs peakTime_def array_sort_def follows_def js_sub_def
      floor_numeral_div floor_one_div)

subsection \<open>The average value\<close>




subsection \<open>Rows without a product name\<close>

text \<open>
  Claim C10, as amended: the empty name never is among the names of the product filter;
  rows whose name is the empty string have an entry of their own in the ranking; and
  that entry is in \<open>top3Overall\<close>, and in the top three of a slot, whenever its reported
  total ranks in the top three: the reported totals are numbers and at most two other
  entries have a reported total that is not smaller.
\<close>

theorem empty_name_ranked:
  "JStr [] \<notin> set (coffeeOptions_set ds) \<and>
   ((\<exists>r\<in>set fs. coffee_name r = JStr []) \<longrightarrow> (\<exists>e\<in>set (entries fs). name e = JStr [])) \<and>
   ((\<forall>g\<in>set (entries fs). total g \<noteq> NaN) \<and> e \<in> set (entries fs) \<and> name e = JStr [] \<and>
      length (filter (\<lambda>g. name g \<noteq> JStr [] \<and> js_le (total e) (total g)) (entries fs)) \<le> 2
      \<longrightarrow> e \<in> set (top3Overall fs)) \<and>
   ((\<forall>g\<in>set (entries (slotRows fs slot)). total g \<noteq> NaN) \<and>
      e' \<in> set (entries (slotRows fs slot)) \<and> name e' = JStr [] \<and>
      length (filter (\<lambda>g. name g \<noteq> JStr [] \<and> js_le (total e') (total g))
        (entries (slotRows fs slot))) \<le> 2
      \<longrightarrow> e' \<in> set (top3BySlot fs slot))"
proof -
  have a: "JStr [] \<notin> set (coffeeOptions_set ds)"
    by (auto simp: coffeeOptions_set_def set_first_seen)
  have b: "(\<exists>r\<in>set fs. coffee_name r = JStr []) \<longrightarrow> (\<exists>e\<in>set (entries fs). name e = JStr [])"
    using empty_name_group by blast
  have c: "e \<in> set (top3 rs)"
    if "\<forall>g\<in>set (entries rs). total g \<noteq> NaN" "e \<in> set (entries rs)" "name e = JStr []"
      "length (filter (\<lambda>g. name g \<noteq> JStr [] \<and> js_le (total e) (total g)) (entries rs)) \<le> 2"
    for e rs
    using top3_contains [of rs e] that by simp
  show ?thesis
    using a b c [of fs e] c [of "slotRows fs slot" e']
    by (simp add: top3Overall_def top3BySlot_def)
qed

theorem empty_name_ranked_witness:
  "JStr [] \<notin> set (coffeeOptions_set with_nameless) \<and>
   coffeeOptions_set with_nameless = [JStr ''A'', JStr ''B'', JStr ''D'', JStr ''E''] \<and>
   top3Overall with_nameless =
     [\<lparr> name = JStr ''E'', total = Fin 5 \<rparr>, \<lparr> name = JStr ''D'', total = Fin 4 \<rparr>,
      \<lparr> name = JStr [], total = Fin 3 \<rparr>] \<and>
   \<lparr> name = JStr [], total = Fin 3 \<rparr> \<in> set (top3BySlot with_nameless ''Morning'')"
  using empty_name_ranked [of with_nameless with_nameless "\<lparr> name = JStr [], total = Fin 3 \<rparr>"
      "''Morning''" "\<lparr> name = JStr [], total = Fin 3 \<rparr>"]
  by (simp add: with_nameless_def rank_defs row_def coffeeOptions_set_def first_seen_def
      slotRows_def strict_eq_def floor_numeral_div floor_one_div)

text \<open>
  Claim C10 as stated fails when the rank is read on the summed sales: the rows without
  a name have the largest sum, 1.00390625, of four products whose sums are all reported
  as 1, and the three products met before them fill the ranking.
\<close>

theorem empty_name_counterexample:
  "group_loop [] (close_sums []) =
     [(JStr ''A'', Fin (1025 / 1024)), (JStr ''B'', Fin (513 / 512)),
      (JStr ''C'', Fin (1027 / 1024)), (JStr [], Fin (257 / 256))] \<and>
   js_lt (Fin (1025 / 1024)) (Fin (257 / 256)) \<and> js_lt (Fin (513 / 512)) (Fin (257 / 256)) \<and>
   js_lt (Fin (1027 / 1024)) (Fin (257 / 256)) \<and>
   top3Overall (close_sums []) =
     [\<lparr> name = JStr ''A'', total = Fin 1 \<rparr>, \<lparr> name = JStr ''B'', total = Fin 1 \<rparr>,
      \<lparr> name = JStr ''C'', total = Fin 1 \<rparr>]"
  by (simp add: close_sums_def rank_defs row_def floor_numeral_div floor_one_div)

end
